theory Spec2Isabelle
  imports Main
begin

section \<open>Values, responses and effects\<close>

text \<open>
  The development embeds \<^verbatim>\<open>packages/sonik/src/server/server.ts\<close>. A render context
  (\<^verbatim>\<open>Head\<close>) is a mutable object; what the server code does with it is to
  allocate it and to hand the reference on, so it is modelled by its address.
\<close>

type_synonym head = nat

text \<open>
  A thrown JavaScript value: the two errors the \<^verbatim>\<open>Response\<close> constructor raises,
  or whatever a user callback throws (or rejects its promise with).
\<close>

datatype 'e exn = RangeError | TypeError | Thrown 'e

record response =
  status :: int
  headers :: "(string \<times> string) list"
  body :: string

text \<open>
  What a handler hands to \<^verbatim>\<open>toWebResponse\<close>, after \<^verbatim>\<open>await\<close>: a renderable value
  (\<^verbatim>\<open>string | Node\<close>) or an already built \<^verbatim>\<open>Response\<close>.
\<close>

datatype 'n result = Node 'n | Resp response

text \<open>
  User callbacks (components, handlers, layouts) are arbitrary JavaScript: they may
  throw and they may change the world (the content of the render context included).
  A computation takes the world and returns its outcome with the new world.
\<close>

type_synonym ('w, 'e, 'a) eff = "'w \<Rightarrow> ('e exn + 'a) \<times> 'w"

definition bind_eff :: "('w, 'e, 'a) eff \<Rightarrow> ('a \<Rightarrow> ('w, 'e, 'b) eff) \<Rightarrow> ('w, 'e, 'b) eff" where
  "bind_eff m f w = (case m w of (Inl e, w') \<Rightarrow> (Inl e, w') | (Inr a, w') \<Rightarrow> f a w')"

type_synonym ('c, 'n, 'w, 'e) fc = "'c \<Rightarrow> head \<Rightarrow> ('w, 'e, 'n result) eff"

type_synonym ('c, 'n, 'w, 'e) preserved_fn = "'c \<Rightarrow> 'e exn option \<Rightarrow> head \<Rightarrow> ('w, 'e, 'n result) eff"

type_synonym ('n, 'w, 'e) layout = "'n \<Rightarrow> head \<Rightarrow> string \<Rightarrow> ('w, 'e, 'n) eff"

section \<open>Strings and sorting as JavaScript has them\<close>

text \<open>\<^verbatim>\<open>s.split(sep)\<close> for a one-character separator: never empty, one segment more
  than there are separators.\<close>

fun split_on :: "char \<Rightarrow> string \<Rightarrow> string list" where
  "split_on s [] = [[]]"
| "split_on s (c # cs) =
     (if c = s then [] # split_on s cs
      else (case split_on s cs of [] \<Rightarrow> [[c]] | w # ws \<Rightarrow> (c # w) # ws))"

text \<open>\<^verbatim>\<open>paths.join('/')\<close>\<close>

fun join_slash :: "string list \<Rightarrow> string" where
  "join_slash [] = []"
| "join_slash [x] = x"
| "join_slash (x # y # zs) = x @ ''/'' @ join_slash (y # zs)"

text \<open>
  \<^verbatim>\<open>Array.prototype.sort(cmp)\<close> is a stable sort: an element goes before the first
  one it does not compare greater than, elements being inserted from the right.
\<close>

fun insert_by :: "('a \<Rightarrow> 'a \<Rightarrow> int) \<Rightarrow> 'a \<Rightarrow> 'a list \<Rightarrow> 'a list" where
  "insert_by cmp x [] = [x]"
| "insert_by cmp x (y # ys) = (if cmp x y \<le> 0 then x # y # ys else y # insert_by cmp x ys)"

definition js_sort :: "('a \<Rightarrow> 'a \<Rightarrow> int) \<Rightarrow> 'a list \<Rightarrow> 'a list" where
  "js_sort cmp xs = foldr (insert_by cmp) xs []"

definition segments :: "string \<Rightarrow> nat" where
  "segments p = length (split_on (CHR ''/'') p)"

text \<open>\<^verbatim>\<open>(a, b) => b.split('/').length - a.split('/').length\<close>\<close>

definition layout_cmp :: "string \<Rightarrow> string \<Rightarrow> int" where
  "layout_cmp a b = int (segments b) - int (segments a)"

definition sort_layouts :: "string list \<Rightarrow> string list" where
  "sort_layouts ls = js_sort layout_cmp ls"

section \<open>The Rendering Composer\<close>

definition addDocType :: "string \<Rightarrow> string" where
  "addDocType html = ''<!doctype html>'' @ html"

text \<open>
  \<^verbatim>\<open>new Response(html, {status, headers})\<close>. The constructor takes \<^verbatim>\<open>status\<close> as an
  \<^verbatim>\<open>unsigned short\<close>: the number's integer part (which is what \<open>st\<close> stands for) modulo
  65536. It raises a \<^verbatim>\<open>RangeError\<close> when that is outside 200..599 and a
  \<^verbatim>\<open>TypeError\<close> for a body with a null-body status.
\<close>

definition unsigned_short :: "int \<Rightarrow> int" where
  "unsigned_short st = st mod 65536"

definition returnHtml :: "string \<Rightarrow> int \<Rightarrow> 'e exn + response" where
  "returnHtml html st =
     (if unsigned_short st < 200 \<or> 599 < unsigned_short st then Inl RangeError
      else if unsigned_short st = 204 \<or> unsigned_short st = 205 \<or> unsigned_short st = 304
        then Inl TypeError
      else Inr \<lparr>status = unsigned_short st,
                headers = [(''Content-Type'', ''text/html; charset=utf-8'')],
                body = html\<rparr>)"

text \<open>
  \<^verbatim>\<open>LAYOUTS\<close> and the layout index are plain objects, and the code reads them with
  \<^verbatim>\<open>obj[key]\<close>: a key that is not an own property but names a member of
  \<^verbatim>\<open>Object.prototype\<close> finds that member. The members, each with the value of its
  \<^verbatim>\<open>length\<close> property (\<^verbatim>\<open>__proto__\<close> is the prototype object itself, which has none):
\<close>

definition object_prototype :: "(string \<times> nat option) list" where
  "object_prototype =
     [(''constructor'', Some 1), (''__defineGetter__'', Some 2), (''__defineSetter__'', Some 2),
      (''hasOwnProperty'', Some 1), (''__lookupGetter__'', Some 1), (''__lookupSetter__'', Some 1),
      (''isPrototypeOf'', Some 1), (''propertyIsEnumerable'', Some 1), (''toString'', Some 0),
      (''valueOf'', Some 0), (''__proto__'', None), (''toLocaleString'', Some 0)]"

text \<open>
  What the variable \<^verbatim>\<open>layouts\<close> can hold when it is not \<^verbatim>\<open>undefined\<close>: an array of
  layout paths (an entry of the layout index), or an inherited member, of which the code
  only ever reads \<^verbatim>\<open>length\<close>.
\<close>

datatype layouts_value = Paths "string list" | Member "nat option"

record toWebOptions =
  head :: head
  layouts :: "layouts_value option"
  filename :: string

text \<open>
  The part of \<^verbatim>\<open>createApp\<close>'s scope that \<^verbatim>\<open>toWebResponse\<close> closes over:
  the layout registry, the root and the serializer.
\<close>

record ('n, 'w, 'e) composer =
  LAYOUTS :: "string \<rightharpoonup> ('n, 'w, 'e) layout"
  root :: string
  render :: "'n \<Rightarrow> string"

text \<open>
  The \<^verbatim>\<open>for (const path of layouts)\<close> loop: a path with no layout file is skipped. For
  a path that names a member of \<^verbatim>\<open>Object.prototype\<close>, \<^verbatim>\<open>LAYOUTS[path]\<close> is that member,
  whose \<^verbatim>\<open>default\<close> is not a function: the call raises a \<^verbatim>\<open>TypeError\<close>.
\<close>

fun apply_layouts ::
  "(string \<rightharpoonup> ('n, 'w, 'e) layout) \<Rightarrow> head \<Rightarrow> string \<Rightarrow> string list \<Rightarrow> 'n \<Rightarrow> ('w, 'e, 'n) eff" where
  "apply_layouts L h f [] res w = (Inr res, w)"
| "apply_layouts L h f (p # ps) res w =
     (case L p of
        None \<Rightarrow>
          (if map_of object_prototype p \<noteq> None then (Inl TypeError, w)
           else apply_layouts L h f ps res w)
      | Some layout \<Rightarrow>
          (case layout res h f w of
             (Inl e, w') \<Rightarrow> (Inl e, w')
           | (Inr res', w') \<Rightarrow> apply_layouts L h f ps res' w'))"

text \<open>\<^verbatim>\<open>layouts && layouts.length\<close>\<close>

definition has_length :: "layouts_value option \<Rightarrow> bool" where
  "has_length v =
     (case v of
        None \<Rightarrow> False
      | Some (Paths ls) \<Rightarrow> ls \<noteq> []
      | Some (Member len) \<Rightarrow> len \<noteq> None \<and> len \<noteq> Some 0)"

text \<open>
  In the first branch \<^verbatim>\<open>layouts.sort\<close> is called: an inherited member has no such
  method, which is a \<^verbatim>\<open>TypeError\<close>. The key of the default layout ends in
  \<^verbatim>\<open>/_layout.tsx\<close>, which no member of \<^verbatim>\<open>Object.prototype\<close> does.
\<close>

definition toWebResponse ::
  "('n, 'w, 'e, 'z) composer_scheme \<Rightarrow> 'n result \<Rightarrow> int \<Rightarrow> toWebOptions \<Rightarrow> ('w, 'e, response) eff" where
  "toWebResponse env res st opts w =
     (case res of
        Resp r \<Rightarrow> (Inr r, w)
      | Node n \<Rightarrow>
          (if has_length (layouts opts) then
             (case layouts opts of
                Some (Paths ls) \<Rightarrow>
                  (case apply_layouts (LAYOUTS env) (head opts) (filename opts)
                          (sort_layouts ls) n w of
                     (Inl e, w') \<Rightarrow> (Inl e, w')
                   | (Inr n', w') \<Rightarrow> (returnHtml (addDocType (render env n')) st, w'))
              | _ \<Rightarrow> (Inl TypeError, w))
           else
             (case LAYOUTS env (root env @ ''/_layout.tsx'') of
                Some defaultLayout \<Rightarrow>
                  (case defaultLayout n (head opts) (filename opts) w of
                     (Inl e, w') \<Rightarrow> (Inl e, w')
                   | (Inr n', w') \<Rightarrow> (returnHtml (addDocType (render env n')) st, w'))
              | None \<Rightarrow> (returnHtml (render env n) st, w))))"

section \<open>The Layout Resolver\<close>

text \<open>
  \<^verbatim>\<open>layoutList[key]\<close>: the own entry (the map \<open>layoutList\<close> holds the own properties of
  the index), else the inherited member, else \<^verbatim>\<open>undefined\<close>. Arrays, functions and
  objects are all truthy. \<^verbatim>\<open>getLayoutPaths\<close> assigns the enclosing \<^verbatim>\<open>layouts\<close>
  variable; the model returns the value it leaves there. \<^verbatim>\<open>paths.pop()\<close> drops the
  last segment.
\<close>

definition layout_index :: "(string \<rightharpoonup> string list) \<Rightarrow> string \<Rightarrow> layouts_value option" where
  "layout_index layoutList key =
     (case layoutList key of
        Some ls \<Rightarrow> Some (Paths ls)
      | None \<Rightarrow> map_option Member (map_of object_prototype key))"

function getLayoutPaths :: "(string \<rightharpoonup> string list) \<Rightarrow> string list \<Rightarrow> layouts_value option" where
  "getLayoutPaths layoutList paths =
     (case layout_index layoutList (join_slash paths) of
        Some ls \<Rightarrow> Some ls
      | None \<Rightarrow> (if butlast paths \<noteq> [] then getLayoutPaths layoutList (butlast paths) else None))"
  by pat_completeness auto
termination
proof (relation "measure (\<lambda>(l, paths). length paths)")
  fix layoutList :: "string \<rightharpoonup> string list" and paths :: "string list"
  assume "butlast paths \<noteq> []"
  then have "paths \<noteq> []" by auto
  then show "((layoutList, butlast paths), (layoutList, paths)) \<in> measure (\<lambda>(l, paths). length paths)"
    by simp
qed simp

declare getLayoutPaths.simps [simp del]

section \<open>Route modules\<close>

text \<open>
  A route file's default export, as far as \<^verbatim>\<open>createApp\<close> probes it:
  \<^verbatim>\<open>'fetch' in routeDefault\<close> (the member, when there is one),
  \<^verbatim>\<open>typeof routeDefault === 'function'\<close> (the function, when it is one) and
  \<^verbatim>\<open>Object.entries(routeDefault)\<close>, in the object's own order. By the type
  \<^verbatim>\<open>Route\<close> the entry with key \<^verbatim>\<open>APP\<close> holds an app handler and an entry with
  any other key a request handler; \<open>None\<close> is a falsy value.
\<close>

datatype ('c, 'n, 'w, 'e, 'a) member =
    Method string "('c, 'n, 'w, 'e) fc option"
  | APP "'a option"

record ('c, 'n, 'w, 'e, 'm, 'a) routeDefault =
  fetch :: "'m option"
  callable :: "('c, 'n, 'w, 'e) fc option"
  entries :: "('c, 'n, 'w, 'e, 'a) member list"

section \<open>Handlers and router calls\<close>

text \<open>
  The closures \<^verbatim>\<open>createApp\<close> registers, each with the variables it captures:
  the user function, \<^verbatim>\<open>head\<close> and \<^verbatim>\<open>resOptions\<close>.
\<close>

datatype ('c, 'n, 'w, 'e) handler =
    ComponentH "('c, 'n, 'w, 'e) fc" head toWebOptions
  | MethodH "('c, 'n, 'w, 'e) fc" head toWebOptions
  | NotFoundH "('c, 'n, 'w, 'e) preserved_fn" head toWebOptions

datatype ('c, 'n, 'w, 'e) error_handler =
    ErrorH "('c, 'n, 'w, 'e) preserved_fn" head toWebOptions

text \<open>
  A request handler's body. The \<^verbatim>\<open>next\<close> a method handler receives belongs to the
  router; what calling it does is part of the handler's effect on the world.
\<close>

fun run_handler ::
  "('n, 'w, 'e, 'z) composer_scheme \<Rightarrow> ('c, 'n, 'w, 'e) handler \<Rightarrow> 'c \<Rightarrow> ('w, 'e, response) eff" where
  "run_handler env (ComponentH routeDefault hctx resOptions) c =
     bind_eff (routeDefault c hctx) (\<lambda>res. toWebResponse env res 200 resOptions)"
| "run_handler env (MethodH handler hctx resOptions) c =
     bind_eff (handler c hctx) (\<lambda>res. toWebResponse env res 200 resOptions)"
| "run_handler env (NotFoundH notFoundHandler hctx resOptions) c =
     bind_eff (notFoundHandler c None hctx) (\<lambda>res. toWebResponse env res 404 resOptions)"

fun run_error_handler ::
  "('n, 'w, 'e, 'z) composer_scheme \<Rightarrow> ('c, 'n, 'w, 'e) error_handler \<Rightarrow> 'e exn \<Rightarrow> 'c \<Rightarrow>
     ('w, 'e, response) eff" where
  "run_error_handler env (ErrorH errorHandler hctx resOptions) err c =
     bind_eff (errorHandler c (Some err) hctx) (\<lambda>res. toWebResponse env res 500 resOptions)"

text \<open>
  The \<^verbatim>\<open>render\<close> function handed to an app handler,
  \<^verbatim>\<open>(node, status) => toWebResponse(node, status, resOptions)\<close>: a missing status is
  the default of the parameter, 200.
\<close>

definition render_callback ::
  "('n, 'w, 'e, 'z) composer_scheme \<Rightarrow> toWebOptions \<Rightarrow> 'n result \<Rightarrow> int option \<Rightarrow>
     ('w, 'e, response) eff" where
  "render_callback env resOptions node st =
     toWebResponse env node (case st of None \<Rightarrow> 200 | Some s \<Rightarrow> s) resOptions"

text \<open>
  The calls \<^verbatim>\<open>createApp\<close> makes on the routers and on user code at install time, in
  order. \<^verbatim>\<open>app\<close> is the outermost router; the sub-router of the \<open>i\<close>-th directory
  of \<^verbatim>\<open>routesMap\<close> is \<open>i\<close>.
\<close>

datatype ('c, 'n, 'w, 'e, 'm, 'a) call =
    SubRoute nat string "('c, 'n, 'w, 'e, 'm, 'a) routeDefault"
      \<comment> \<open>\<^verbatim>\<open>subApp.route(path, routeDefault)\<close>\<close>
  | AppRoute string nat
      \<comment> \<open>\<^verbatim>\<open>app.route(rootPath, subApp)\<close>\<close>
  | SubGet nat string "('c, 'n, 'w, 'e) handler"
      \<comment> \<open>\<^verbatim>\<open>subApp.get(path, handler)\<close>\<close>
  | SubOn nat string string "('c, 'n, 'w, 'e) handler"
      \<comment> \<open>\<^verbatim>\<open>subApp.on(method, path, handler)\<close>\<close>
  | CallAPP 'a nat string head toWebOptions
      \<comment> \<open>\<^verbatim>\<open>appHandler(subApp.use(path), {head, render})\<close>, \<^verbatim>\<open>render\<close> being
         \<open>render_callback\<close> of the \<^verbatim>\<open>resOptions\<close>\<close>
  | SubOnError nat "('c, 'n, 'w, 'e) error_handler"
      \<comment> \<open>\<^verbatim>\<open>subApp.onError(handler)\<close>\<close>
  | AppNotFound "('c, 'n, 'w, 'e) handler"
      \<comment> \<open>\<^verbatim>\<open>app.notFound(handler)\<close>\<close>
  | AppOnError "('c, 'n, 'w, 'e) error_handler"
      \<comment> \<open>\<^verbatim>\<open>app.onError(handler)\<close>\<close>

section \<open>The Route Installer\<close>

definition NOTFOUND_FILENAME :: string where
  "NOTFOUND_FILENAME = ''_404.tsx''"

definition ERROR_FILENAME :: string where
  "ERROR_FILENAME = ''_error.tsx''"

text \<open>
  \<^verbatim>\<open>createApp\<close>'s scope. \<^verbatim>\<open>groupByDirectory\<close>, \<^verbatim>\<open>listByDirectory\<close> and
  \<^verbatim>\<open>filePathToPath\<close> live in \<^verbatim>\<open>utils/file.js\<close>: their results
  \<^verbatim>\<open>routesMap\<close>, \<^verbatim>\<open>preservedMap\<close> and \<^verbatim>\<open>layoutList\<close> and the function itself are
  taken as given. The two maps are iterated with \<^verbatim>\<open>Object.entries\<close>, so they are
  association lists (with distinct keys, as an object has). A file is its
  \<^verbatim>\<open>default\<close> export; a route file may have none. \<open>stripRoot dir\<close> is
  \<^verbatim>\<open>dir.replace(new RegExp(`^${root}`), '')\<close>. \<open>createHead\<close> is the optional factory:
  \<open>f k\<close> is the render context it returns when \<open>k\<close> contexts were requested before.
\<close>

record ('c, 'n, 'w, 'e, 'm, 'a) scope = "('n, 'w, 'e) composer" +
  routesMap :: "(string \<times> (string \<times> ('c, 'n, 'w, 'e, 'm, 'a) routeDefault option) list) list"
  preservedMap :: "(string \<times> (string \<rightharpoonup> ('c, 'n, 'w, 'e) preserved_fn)) list"
  layoutList :: "string \<rightharpoonup> string list"
  filePathToPath :: "string \<Rightarrow> string"
  stripRoot :: "string \<Rightarrow> string"
  createHead :: "(nat \<Rightarrow> head) option"

text \<open>
  \<^verbatim>\<open>options.createHead ? options.createHead() : new Head({...})\<close>, when \<open>k\<close> render
  contexts were requested before: \<^verbatim>\<open>new\<close> gives an object at a fresh address.
\<close>

definition new_head :: "(nat \<Rightarrow> head) option \<Rightarrow> nat \<Rightarrow> head" where
  "new_head factory k = (case factory of Some f \<Rightarrow> f k | None \<Rightarrow> k)"

text \<open>Lines 121 to 136: the directory's own entry of the layout index, or the walk.\<close>

definition resolve_layouts :: "(string \<rightharpoonup> string list) \<Rightarrow> string \<Rightarrow> layouts_value option" where
  "resolve_layouts ll dir =
     (case layout_index ll dir of
        Some ls \<Rightarrow> Some ls
      | None \<Rightarrow> getLayoutPaths ll (split_on (CHR ''/'') dir))"

text \<open>One turn of \<^verbatim>\<open>for (const [method, handler] of Object.entries(routeDefault))\<close>.\<close>

fun install_member ::
  "nat \<Rightarrow> string \<Rightarrow> head \<Rightarrow> toWebOptions \<Rightarrow> ('c, 'n, 'w, 'e, 'a) member \<Rightarrow>
     ('c, 'n, 'w, 'e, 'm, 'a) call list" where
  "install_member i path hctx resOptions (APP None) = []"
| "install_member i path hctx resOptions (APP (Some appHandler)) =
     [CallAPP appHandler i path hctx resOptions]"
| "install_member i path hctx resOptions (Method method None) = []"
| "install_member i path hctx resOptions (Method method (Some handler)) =
     [SubOn i method path (MethodH handler hctx resOptions)]"

text \<open>One turn of \<^verbatim>\<open>for (const [preservedDir, content] of Object.entries(preservedMap))\<close>.\<close>

definition install_preserved ::
  "string \<Rightarrow> nat \<Rightarrow> string \<Rightarrow> head \<Rightarrow> toWebOptions \<Rightarrow>
     string \<times> (string \<rightharpoonup> ('c, 'n, 'w, 'e) preserved_fn) \<Rightarrow> ('c, 'n, 'w, 'e, 'm, 'a) call list" where
  "install_preserved rt i dir hctx resOptions entry =
     (case entry of (preservedDir, content) \<Rightarrow>
        if dir \<noteq> rt \<and> dir = preservedDir then
          (case content NOTFOUND_FILENAME of
             Some notFoundHandler \<Rightarrow> [SubGet i ''*'' (NotFoundH notFoundHandler hctx resOptions)]
           | None \<Rightarrow> [])
          @ (case content ERROR_FILENAME of
               Some errorHandler \<Rightarrow> [SubOnError i (ErrorH errorHandler hctx resOptions)]
             | None \<Rightarrow> [])
        else [])"

text \<open>
  The body of \<^verbatim>\<open>for (const [filename, route] of Object.entries(content))\<close>, lines 138
  to 217: the calls it makes, and the number of render contexts requested so far.
\<close>

definition install_file ::
  "('c, 'n, 'w, 'e, 'm, 'a) scope \<Rightarrow> nat \<Rightarrow> string \<Rightarrow> layouts_value option \<Rightarrow>
     string \<times> ('c, 'n, 'w, 'e, 'm, 'a) routeDefault option \<Rightarrow> nat \<Rightarrow>
     ('c, 'n, 'w, 'e, 'm, 'a) call list \<times> nat" where
  "install_file env i dir lays file k =
     (case file of (fname, route) \<Rightarrow>
        (case route of
           None \<Rightarrow> ([], k)
         | Some routeDefault \<Rightarrow>
             (let path = filePathToPath env fname;
                  rootPath = stripRoot env dir
              in if fetch routeDefault \<noteq> None then
                   ([SubRoute i path routeDefault, AppRoute rootPath i], k)
                 else
                   (let hctx = new_head (createHead env) k;
                        resOptions = \<lparr>head = hctx, layouts = lays, filename = fname\<rparr>
                    in ((case callable routeDefault of
                           Some f \<Rightarrow> [SubGet i path (ComponentH f hctx resOptions)]
                         | None \<Rightarrow> [])
                        @ concat (map (install_member i path hctx resOptions) (entries routeDefault))
                        @ concat (map (install_preserved (root env) i dir hctx resOptions)
                                    (preservedMap env))
                        @ [AppRoute rootPath i],
                        Suc k)))))"

fun install_files ::
  "('c, 'n, 'w, 'e, 'm, 'a) scope \<Rightarrow> nat \<Rightarrow> string \<Rightarrow> layouts_value option \<Rightarrow>
     (string \<times> ('c, 'n, 'w, 'e, 'm, 'a) routeDefault option) list \<Rightarrow> nat \<Rightarrow>
     ('c, 'n, 'w, 'e, 'm, 'a) call list \<times> nat" where
  "install_files env i dir lays [] k = ([], k)"
| "install_files env i dir lays (file # files) k =
     (case install_file env i dir lays file k of (cs, k') \<Rightarrow>
        (case install_files env i dir lays files k' of (cs', k'') \<Rightarrow> (cs @ cs', k'')))"

text \<open>\<^verbatim>\<open>for (const [dir, content] of Object.entries(routesMap))\<close>, lines 118 to 218.\<close>

fun install_dirs ::
  "('c, 'n, 'w, 'e, 'm, 'a) scope \<Rightarrow> nat \<Rightarrow>
     (string \<times> (string \<times> ('c, 'n, 'w, 'e, 'm, 'a) routeDefault option) list) list \<Rightarrow> nat \<Rightarrow>
     ('c, 'n, 'w, 'e, 'm, 'a) call list \<times> nat" where
  "install_dirs env i [] k = ([], k)"
| "install_dirs env i ((dir, content) # dirs) k =
     (case install_files env i dir (resolve_layouts (layoutList env) dir) content k of (cs, k') \<Rightarrow>
        (case install_dirs env (Suc i) dirs k' of (cs', k'') \<Rightarrow> (cs @ cs', k'')))"

text \<open>
  Lines 220 to 252: the root directory's preserved files, on the outermost router. When
  \<^verbatim>\<open>preservedMap[root]\<close> finds a member of \<^verbatim>\<open>Object.prototype\<close>, that member has
  neither a \<^verbatim>\<open>_404.tsx\<close> nor an \<^verbatim>\<open>_error.tsx\<close> property and nothing is registered, as
  when there is no entry.
\<close>

definition install_root ::
  "('c, 'n, 'w, 'e, 'm, 'a) scope \<Rightarrow> nat \<Rightarrow> ('c, 'n, 'w, 'e, 'm, 'a) call list" where
  "install_root env k =
     (let hctx = new_head (createHead env) k
      in case map_of (preservedMap env) (root env) of
           None \<Rightarrow> []
         | Some content \<Rightarrow>
             (case content NOTFOUND_FILENAME of
                Some notFoundHandler \<Rightarrow>
                  [AppNotFound (NotFoundH notFoundHandler hctx
                     \<lparr>head = hctx, layouts = None, filename = NOTFOUND_FILENAME\<rparr>)]
              | None \<Rightarrow> [])
             @ (case content ERROR_FILENAME of
                  Some errorHandler \<Rightarrow>
                    [AppOnError (ErrorH errorHandler hctx
                       \<lparr>head = hctx, layouts = None, filename = ERROR_FILENAME\<rparr>)]
                | None \<Rightarrow> []))"

definition createApp ::
  "('c, 'n, 'w, 'e, 'm, 'a) scope \<Rightarrow> ('c, 'n, 'w, 'e, 'm, 'a) call list" where
  "createApp env =
     (case install_dirs env 0 (routesMap env) 0 of (cs, k) \<Rightarrow> cs @ install_root env k)"

section \<open>Notions used in the statements\<close>

text \<open>The truncations of a list of segments, the whole list first: what the walk tries.\<close>

definition truncations :: "string list \<Rightarrow> string list list" where
  "truncations segs = map (\<lambda>k. take k segs) (rev [1..<Suc (length segs)])"

text \<open>The calls that mount a router: \<^verbatim>\<open>subApp.route\<close> and \<^verbatim>\<open>app.route\<close>.\<close>

fun is_mount :: "('c, 'n, 'w, 'e, 'm, 'a) call \<Rightarrow> bool" where
  "is_mount (SubRoute i path rd) = True"
| "is_mount (AppRoute rootPath i) = True"
| "is_mount c = False"

text \<open>The HTTP method a call registers a request handler for: \<^verbatim>\<open>get\<close> registers for
  GET, \<^verbatim>\<open>on\<close> for the method it is given.\<close>

fun route_method :: "('c, 'n, 'w, 'e, 'm, 'a) call \<Rightarrow> string option" where
  "route_method (SubGet i path h) = Some ''GET''"
| "route_method (SubOn i method path h) = Some method"
| "route_method c = None"

text \<open>The render contexts a closure captures: its \<^verbatim>\<open>head\<close> and the one in its
  \<^verbatim>\<open>resOptions\<close>.\<close>

fun handler_heads :: "('c, 'n, 'w, 'e) handler \<Rightarrow> head list" where
  "handler_heads (ComponentH f hctx resOptions) = [hctx, head resOptions]"
| "handler_heads (MethodH f hctx resOptions) = [hctx, head resOptions]"
| "handler_heads (NotFoundH f hctx resOptions) = [hctx, head resOptions]"

fun error_handler_heads :: "('c, 'n, 'w, 'e) error_handler \<Rightarrow> head list" where
  "error_handler_heads (ErrorH f hctx resOptions) = [hctx, head resOptions]"

fun call_heads :: "('c, 'n, 'w, 'e, 'm, 'a) call \<Rightarrow> head list" where
  "call_heads (SubRoute i path rd) = []"
| "call_heads (AppRoute rootPath i) = []"
| "call_heads (SubGet i path h) = handler_heads h"
| "call_heads (SubOn i method path h) = handler_heads h"
| "call_heads (CallAPP appHandler i path hctx resOptions) = [hctx, head resOptions]"
| "call_heads (SubOnError i h) = error_handler_heads h"
| "call_heads (AppNotFound h) = handler_heads h"
| "call_heads (AppOnError h) = error_handler_heads h"

text \<open>
  The route files in the order in which \<^verbatim>\<open>createApp\<close> visits them (the two nested
  loops), each with the index and the path of its directory.
\<close>

definition route_files ::
  "('c, 'n, 'w, 'e, 'm, 'a) scope \<Rightarrow>
     (nat \<times> string \<times> string \<times> ('c, 'n, 'w, 'e, 'm, 'a) routeDefault option) list" where
  "route_files env =
     concat (map (\<lambda>(i, dir, content). map (\<lambda>file. (i, dir, file)) content)
               (zip [0..<length (routesMap env)] (routesMap env)))"

text \<open>
  The turn of a route file reaches line 153, where the render context is requested, when
  the file has a default export and that has no \<^verbatim>\<open>fetch\<close> member.
\<close>

definition requests_context ::
  "nat \<times> string \<times> string \<times> ('c, 'n, 'w, 'e, 'm, 'a) routeDefault option \<Rightarrow> bool" where
  "requests_context t =
     (case t of (i, dir, fname, route) \<Rightarrow>
        (case route of None \<Rightarrow> False | Some rd \<Rightarrow> fetch rd = None))"

text \<open>The number of render contexts requested before the turn of the \<open>j\<close>-th route file.\<close>

definition contexts_before :: "('c, 'n, 'w, 'e, 'm, 'a) scope \<Rightarrow> nat \<Rightarrow> nat" where
  "contexts_before env j = length (filter requests_context (take j (route_files env)))"

text \<open>The calls of the turn of the \<open>j\<close>-th route file.\<close>

definition turn :: "('c, 'n, 'w, 'e, 'm, 'a) scope \<Rightarrow> nat \<Rightarrow> ('c, 'n, 'w, 'e, 'm, 'a) call list" where
  "turn env j =
     (case route_files env ! j of (i, dir, file) \<Rightarrow>
        fst (install_file env i dir (resolve_layouts (layoutList env) dir) file
               (contexts_before env j)))"

text \<open>The two nested loops as one loop over \<open>route_files\<close>; used in proofs only.\<close>

fun install_flat ::
  "('c, 'n, 'w, 'e, 'm, 'a) scope \<Rightarrow>
     (nat \<times> string \<times> string \<times> ('c, 'n, 'w, 'e, 'm, 'a) routeDefault option) list \<Rightarrow> nat \<Rightarrow>
     ('c, 'n, 'w, 'e, 'm, 'a) call list \<times> nat" where
  "install_flat env [] k = ([], k)"
| "install_flat env ((i, dir, file) # ts) k =
     (case install_file env i dir (resolve_layouts (layoutList env) dir) file k of (cs, k') \<Rightarrow>
        (case install_flat env ts k' of (cs', k'') \<Rightarrow> (cs @ cs', k'')))"

text \<open>
  Two scopes whose layouts, whatever else they do, do the same when they are passed the
  render context \<open>x\<close>, and which have the same root and serializer.
\<close>

definition same_at ::
  "head \<Rightarrow> ('n, 'w, 'e, 'y) composer_scheme \<Rightarrow> ('n, 'w, 'e, 'z) composer_scheme \<Rightarrow> bool" where
  "same_at x env env' =
     (root env = root env' \<and> render env = render env'
      \<and> (\<forall>p. case LAYOUTS env p of
                None \<Rightarrow> LAYOUTS env' p = None
              | Some l \<Rightarrow>
                  (case LAYOUTS env' p of
                     None \<Rightarrow> False
                   | Some l' \<Rightarrow> (\<forall>res fn w. l res x fn w = l' res x fn w))))"

section \<open>Example inputs\<close>




text \<open>Components and preserved handlers that log the request and the render context they
  are passed in the world. Requests are numbers.\<close>

type_synonym world = "(nat \<times> head) list"

definition page :: "(nat, string, world, unit) fc" where
  "page c h w = (Inr (Node ''page''), w @ [(c, h)])"

text \<open>A component that works as \<open>page\<close> with the render context at address 0 and throws
  with any other.\<close>

definition page_at_0 :: "(nat, string, world, unit) fc" where
  "page_at_0 c h w = (if h = 0 then page c h w else (Inl TypeError, w))"

definition missing :: "(nat, string, world, unit) preserved_fn" where
  "missing c err h w = (Inr (Node ''missing''), w @ [(c, h)])"

definition failed :: "(nat, string, world, unit) preserved_fn" where
  "failed c err h w = (Inr (Node ''failed''), w @ [(c, h)])"

text \<open>A stand-in for \<^verbatim>\<open>filePathToPath\<close> (\<^verbatim>\<open>page.tsx\<close> to \<^verbatim>\<open>/page\<close>), and
  \<^verbatim>\<open>dir.replace(/^\/app\/routes/, '')\<close>: the root has 11 characters.\<close>

definition example_path :: "string \<Rightarrow> string" where
  "example_path fname = ''/'' @ takeWhile (\<lambda>c. c \<noteq> CHR ''.'') fname"

definition example_strip :: "string \<Rightarrow> string" where
  "example_strip dir = (if take 11 dir = ''/app/routes'' then drop 11 dir else dir)"

definition component :: "(nat, string, world, unit) fc \<Rightarrow> (nat, string, world, unit, string, string) routeDefault" where
  "component f = \<lparr>fetch = None, callable = Some f, entries = []\<rparr>"

definition scope0 :: "(nat, string, world, unit, string, string) scope" where
  "scope0 =
     \<lparr>LAYOUTS = Map.empty, root = ''/app/routes'', render = (\<lambda>n. n),
      routesMap = [], preservedMap = [], layoutList = Map.empty,
      filePathToPath = example_path, stripRoot = example_strip, createHead = None\<rparr>"

definition one_page :: "(nat, string, world, unit, string, string) scope" where
  "one_page = scope0\<lparr>routesMap := [(''/app/routes'', [(''page.tsx'', Some (component page))])]\<rparr>"

text \<open>An export with a \<^verbatim>\<open>fetch\<close> member that is also callable and has a method entry and
  an \<^verbatim>\<open>APP\<close> entry.\<close>

definition hybrid :: "(nat, string, world, unit, string, string) routeDefault" where
  "hybrid = \<lparr>fetch = Some ''api'', callable = Some page,
            entries = [Method ''POST'' (Some page), APP (Some ''setup'')]\<rparr>"

definition mounted_dir :: "(nat, string, world, unit, string, string) scope" where
  "mounted_dir = scope0
     \<lparr>routesMap := [(''/app/routes/a'', [(''api.ts'', Some hybrid)])],
      preservedMap := [(''/app/routes/a'', [''_404.tsx'' \<mapsto> missing])],
      layoutList := [''/app/routes/a'' \<mapsto> [''/app/routes/a/_layout.tsx'']]\<rparr>"

text \<open>A directory whose only route file is a mounted app, with both preserved files.\<close>

definition mounted :: "(nat, string, world, unit, string, string) routeDefault" where
  "mounted = \<lparr>fetch = Some ''api'', callable = None, entries = []\<rparr>"

definition mounted_only :: "(nat, string, world, unit, string, string) scope" where
  "mounted_only = scope0
     \<lparr>routesMap := [(''/app/routes/a'', [(''api.ts'', Some mounted)])],
      preservedMap := [(''/app/routes/a'', [''_404.tsx'' \<mapsto> missing, ''_error.tsx'' \<mapsto> failed])]\<rparr>"

text \<open>A route file registered under the relative path \<^verbatim>\<open>constructor/b/page.tsx\<close>; there
  is no layout anywhere.\<close>

definition inherited_dir :: "(nat, string, world, unit, string, string) scope" where
  "inherited_dir = scope0\<lparr>routesMap := [(''constructor/b'', [(''page.tsx'', Some (component page))])]\<rparr>"

text \<open>The same route file under \<^verbatim>\<open>pages/b/page.tsx\<close>.\<close>

definition relative_dir :: "(nat, string, world, unit, string, string) scope" where
  "relative_dir = scope0\<lparr>routesMap := [(''pages/b'', [(''page.tsx'', Some (component page))])]\<rparr>"

definition two_pages :: "(nat, string, world, unit, string, string) scope" where
  "two_pages = scope0
     \<lparr>routesMap := [(''/app/routes/a'',
                      [(''x.tsx'', Some (component page)), (''y.tsx'', Some (component page))])],
      preservedMap := [(''/app/routes/a'', [''_404.tsx'' \<mapsto> missing])]\<rparr>"

section \<open>Strings, sorting and responses\<close>

lemma insert_by_layout_cmp:
  "insert_by layout_cmp x ys = insort_key (\<lambda>p. - int (segments p)) x ys"
  by (induction ys) (auto simp: layout_cmp_def)

lemma sort_layouts_sort_key:
  "sort_layouts ls = sort_key (\<lambda>p. - int (segments p)) ls"
  by (induction ls) (simp_all add: sort_layouts_def js_sort_def insert_by_layout_cmp sort_key_def)



text \<open>\<^verbatim>\<open>sort\<close> works in place, on the array that all the handlers of a directory share;
  sorting it again changes nothing, so every call sees the chain in the same order.\<close>

lemma sort_layouts_idem: "sort_layouts (sort_layouts ls) = sort_layouts ls"
  by (simp add: sort_layouts_sort_key sort_key_id_if_sorted)

lemma split_on_length: "length (split_on s cs) = Suc (length (filter (\<lambda>c. c = s) cs))"
  by (induction cs) (auto split: list.splits)

lemma split_on_nonempty: "split_on s cs \<noteq> []"
  using split_on_length [of s cs] by auto

lemma join_split: "join_slash (split_on (CHR ''/'') s) = s"
proof (induction s)
  case Nil
  then show ?case by simp
next
  case (Cons c cs)
  obtain w ws where sp: "split_on (CHR ''/'') cs = w # ws"
    by (cases "split_on (CHR ''/'') cs") (use split_on_length [of "CHR ''/''" cs] in auto)
  with Cons show ?case
    by (cases ws) auto
qed




lemma bind_eff_Inr: "m w = (Inr a, w1) \<Longrightarrow> bind_eff m f w = f a w1"
  by (simp add: bind_eff_def)

lemma toWebResponse_Node_response:
  fixes env :: "('n, 'w, 'e, 'z) composer_scheme"
  assumes "toWebResponse env (Node n) st opts w = (Inr r, w')"
  shows "status r = unsigned_short st \<and> 200 \<le> status r \<and> status r \<le> 599
    \<and> headers r = [(''Content-Type'', ''text/html; charset=utf-8'')]"
proof -
  have "\<exists>html. returnHtml html st = (Inr r :: 'e exn + response)"
    using assms
    by (auto simp: toWebResponse_def
        split: if_splits option.splits prod.splits sum.splits layouts_value.splits)
  then show ?thesis
    by (auto simp: returnHtml_def split: if_splits)
qed

lemma toWebResponse_unwrapped:
  assumes "layouts opts = None" and "LAYOUTS env (root env @ ''/_layout.tsx'') = None"
  shows "toWebResponse env (Node n) 200 opts w =
           (Inr \<lparr>status = 200, headers = [(''Content-Type'', ''text/html; charset=utf-8'')],
                 body = render env n\<rparr>, w)"
  using assms by (simp add: toWebResponse_def returnHtml_def has_length_def unsigned_short_def)

lemma toWebResponse_Node_status:
  assumes "toWebResponse env (Node n) st opts w = (Inr r, w')" and "200 \<le> st" and "st \<le> 599"
  shows "status r = st"
  using toWebResponse_Node_response [OF assms(1)] assms(2,3) by (simp add: unsigned_short_def)

lemma handler_conventions:
  fixes env :: "('n, 'w, 'e, 'z) composer_scheme"
  shows "f c hctx w = (Inr (Node n), w1) \<Longrightarrow> run_handler env (ComponentH f hctx opts) c w = (Inr r, w')
      \<Longrightarrow> status r = 200 \<and> headers r = [(''Content-Type'', ''text/html; charset=utf-8'')]"
    and "f c hctx w = (Inr (Node n), w1) \<Longrightarrow> run_handler env (MethodH f hctx opts) c w = (Inr r, w')
      \<Longrightarrow> status r = 200 \<and> headers r = [(''Content-Type'', ''text/html; charset=utf-8'')]"
    and "nf c None hctx w = (Inr (Node n), w1) \<Longrightarrow> run_handler env (NotFoundH nf hctx opts) c w = (Inr r, w')
      \<Longrightarrow> status r = 404 \<and> headers r = [(''Content-Type'', ''text/html; charset=utf-8'')]"
    and "eh c (Some err) hctx w = (Inr (Node n), w1)
      \<Longrightarrow> run_error_handler env (ErrorH eh hctx opts) err c w = (Inr r, w')
      \<Longrightarrow> status r = 500 \<and> headers r = [(''Content-Type'', ''text/html; charset=utf-8'')]"
proof -
  have h: "status r = st \<and> headers r = [(''Content-Type'', ''text/html; charset=utf-8'')]"
    if "toWebResponse env (Node n) st opts w = (Inr r, w')" "200 \<le> st" "st \<le> 599"
    for n st opts w r w'
    using toWebResponse_Node_response [OF that(1)] toWebResponse_Node_status [OF that] by simp
  show "f c hctx w = (Inr (Node n), w1) \<Longrightarrow> run_handler env (ComponentH f hctx opts) c w = (Inr r, w')
      \<Longrightarrow> status r = 200 \<and> headers r = [(''Content-Type'', ''text/html; charset=utf-8'')]"
    by (simp add: bind_eff_def h)
  show "f c hctx w = (Inr (Node n), w1) \<Longrightarrow> run_handler env (MethodH f hctx opts) c w = (Inr r, w')
      \<Longrightarrow> status r = 200 \<and> headers r = [(''Content-Type'', ''text/html; charset=utf-8'')]"
    by (simp add: bind_eff_def h)
  show "nf c None hctx w = (Inr (Node n), w1) \<Longrightarrow> run_handler env (NotFoundH nf hctx opts) c w = (Inr r, w')
      \<Longrightarrow> status r = 404 \<and> headers r = [(''Content-Type'', ''text/html; charset=utf-8'')]"
    by (simp add: bind_eff_def h)
  show "eh c (Some err) hctx w = (Inr (Node n), w1)
      \<Longrightarrow> run_error_handler env (ErrorH eh hctx opts) err c w = (Inr r, w')
      \<Longrightarrow> status r = 500 \<and> headers r = [(''Content-Type'', ''text/html; charset=utf-8'')]"
    by (simp add: bind_eff_def h)
qed

text \<open>A key with a slash in it names no member of \<^verbatim>\<open>Object.prototype\<close>.\<close>

lemma inherited_no_slash: "map_of object_prototype key = Some v \<Longrightarrow> CHR ''/'' \<notin> set key"
  by (simp add: object_prototype_def split: if_splits)

lemma slash_not_inherited: "CHR ''/'' \<in> set key \<Longrightarrow> map_of object_prototype key = None"
  using inherited_no_slash [of key] by (cases "map_of object_prototype key") auto

section \<open>The walk up the directories\<close>

lemma truncations_Nil: "truncations [] = []"
  by (simp add: truncations_def)

lemma truncations_step:
  assumes "segs \<noteq> []"
  shows "truncations segs = segs # truncations (butlast segs)"
proof -
  obtain m where m: "length segs = Suc m"
    using assms by (cases segs) auto
  have "map (\<lambda>k. take k segs) (rev [1..<Suc m]) = map (\<lambda>k. take k (butlast segs)) (rev [1..<Suc m])"
    using m by (auto simp: butlast_conv_take min_def)
  then show ?thesis
    using m by (simp add: truncations_def)
qed

lemma getLayoutPaths_truncations:
  "paths \<noteq> [] \<Longrightarrow>
   getLayoutPaths ll paths =
     (case filter (\<lambda>p. layout_index ll p \<noteq> None) (map join_slash (truncations paths)) of
        [] \<Rightarrow> None
      | p # _ \<Rightarrow> layout_index ll p)"
proof (induction ll paths rule: getLayoutPaths.induct)
  case (1 ll paths)
  show ?case
  proof (cases "layout_index ll (join_slash paths)")
    case (Some ls)
    then show ?thesis
      using "1.prems" by (subst getLayoutPaths.simps) (simp add: truncations_step)
  next
    case None
    show ?thesis
    proof (cases "butlast paths = []")
      case True
      then show ?thesis
        using None "1.prems"
        by (subst getLayoutPaths.simps) (simp add: truncations_step truncations_Nil)
    next
      case False
      then show ?thesis
        using None "1.prems" "1.IH" [OF None False False]
        by (subst getLayoutPaths.simps) (simp add: truncations_step)
    qed
  qed
qed

lemma resolve_layouts_truncations:
  "resolve_layouts ll dir =
     (case filter (\<lambda>p. layout_index ll p \<noteq> None)
             (map join_slash (truncations (split_on (CHR ''/'') dir))) of
        [] \<Rightarrow> None
      | p # _ \<Rightarrow> layout_index ll p)"
proof (cases "layout_index ll dir")
  case None
  then show ?thesis
    by (simp add: resolve_layouts_def getLayoutPaths_truncations split_on_nonempty)
next
  case (Some v)
  then show ?thesis
    by (simp add: resolve_layouts_def truncations_step split_on_nonempty join_split)
qed

text \<open>
  The walk, read on the path itself: a directory with an entry of its own has that
  entry; a directory \<open>a/b\<close> without one has what its parent \<open>a\<close> has; a path of one
  segment without an entry has the member of \<^verbatim>\<open>Object.prototype\<close> it names, if it names
  one, and nothing otherwise.
\<close>

lemma split_on_no_sep: "s \<notin> set ys \<Longrightarrow> split_on s ys = [ys]"
  by (induction ys) auto

lemma split_on_last:
  "s \<notin> set ys \<Longrightarrow> split_on s (xs @ s # ys) = split_on s xs @ [ys]"
proof (induction xs)
  case Nil
  then show ?case by (simp add: split_on_no_sep)
next
  case (Cons c cs)
  obtain w ws where "split_on s cs = w # ws"
    using split_on_nonempty [of s cs] by (cases "split_on s cs") auto
  with Cons show ?case by simp
qed

lemma resolve_layouts_own: "ll dir = Some ls \<Longrightarrow> resolve_layouts ll dir = Some (Paths ls)"
  by (simp add: resolve_layouts_def layout_index_def)

lemma getLayoutPaths_resolve: "getLayoutPaths ll (split_on (CHR ''/'') a) = resolve_layouts ll a"
proof (cases "layout_index ll a")
  case None
  then show ?thesis by (simp add: resolve_layouts_def)
next
  case (Some v)
  then show ?thesis
    by (subst getLayoutPaths.simps) (simp add: join_split resolve_layouts_def)
qed

lemma resolve_layouts_parent:
  assumes "ll (a @ CHR ''/'' # b) = None" and "CHR ''/'' \<notin> set b"
  shows "resolve_layouts ll (a @ CHR ''/'' # b) = resolve_layouts ll a"
proof -
  have i: "layout_index ll (a @ CHR ''/'' # b) = None"
    using assms(1) by (simp add: layout_index_def slash_not_inherited)
  have s: "split_on (CHR ''/'') (a @ CHR ''/'' # b) = split_on (CHR ''/'') a @ [b]"
    using assms(2) by (rule split_on_last)
  have j: "join_slash (split_on (CHR ''/'') a @ [b]) = a @ CHR ''/'' # b"
    using join_split [of "a @ CHR ''/'' # b"] by (simp add: s)
  have "resolve_layouts ll (a @ CHR ''/'' # b) = getLayoutPaths ll (split_on (CHR ''/'') a @ [b])"
    using i by (simp add: resolve_layouts_def s)
  also have "\<dots> = getLayoutPaths ll (split_on (CHR ''/'') a)"
    by (subst getLayoutPaths.simps) (simp add: j i split_on_nonempty)
  also have "\<dots> = resolve_layouts ll a"
    by (rule getLayoutPaths_resolve)
  finally show ?thesis .
qed

lemma resolve_layouts_top:
  assumes "ll d = None" and "CHR ''/'' \<notin> set d"
  shows "resolve_layouts ll d = map_option Member (map_of object_prototype d)"
proof -
  have "getLayoutPaths ll [d] = layout_index ll d"
    by (subst getLayoutPaths.simps) (simp split: option.splits)
  then show ?thesis
    using assms by (simp add: resolve_layouts_def split_on_no_sep layout_index_def split: option.splits)
qed

text \<open>An absolute path finds no inherited member: under an empty layout index it has no
  layouts.\<close>

lemma resolve_layouts_absolute_empty:
  "ll = Map.empty \<Longrightarrow> resolve_layouts ll (CHR ''/'' # d) = None"
proof (induction "length d" arbitrary: d rule: less_induct)
  case less
  show ?case
  proof (cases "CHR ''/'' \<in> set d")
    case False
    have "resolve_layouts ll ([] @ CHR ''/'' # d) = resolve_layouts ll []"
      using less.prems False by (intro resolve_layouts_parent) simp_all
    also have "\<dots> = None"
      using less.prems resolve_layouts_top [of ll "[]"] by (simp add: object_prototype_def)
    finally show ?thesis by simp
  next
    case True
    then obtain d' b where d: "d = d' @ CHR ''/'' # b" "CHR ''/'' \<notin> set b"
      by (meson split_list_last)
    have "resolve_layouts ll ((CHR ''/'' # d') @ CHR ''/'' # b) = resolve_layouts ll (CHR ''/'' # d')"
      using less.prems d(2) by (intro resolve_layouts_parent) simp_all
    also have "\<dots> = None"
      using less.hyps [of d'] less.prems d(1) by simp
    finally show ?thesis using d(1) by simp
  qed
qed

lemma resolve_one_page: "resolve_layouts (layoutList one_page) ''/app/routes'' = None"
  by (rule resolve_layouts_absolute_empty) (simp add: one_page_def scope0_def)

section \<open>The Rendering Composer: layout chain, pass-through, conventions\<close>



text \<open>
  C6. A value that is already a \<^verbatim>\<open>Response\<close> is returned as it is, whatever the
  status and the options: no layout runs (the world is unchanged), nothing is serialized,
  no preamble and no header is added.
\<close>

theorem toWebResponse_passes_Response:
  "toWebResponse env (Resp r) st opts w = (Inr r, w)"
  by (simp add: toWebResponse_def)

text \<open>
  C8. A response that \<^verbatim>\<open>toWebResponse\<close> builds (its argument not being a
  \<^verbatim>\<open>Response\<close>) has the single header \<^verbatim>\<open>Content-Type: text/html; charset=utf-8\<close>,
  whatever status it is called with, also through the render callback of an app handler;
  its status is the one passed, as the \<^verbatim>\<open>Response\<close> constructor reads it. The
  handlers call it with 200 for a component and for a method handler, with 404 for a
  not-found handler and with 500 for an error handler, and these are the statuses of
  their rendered responses.
\<close>

theorem rendered_response_conventions:
  "(\<forall>n r w'. toWebResponse env (Node n) st opts w = (Inr r, w')
       \<longrightarrow> headers r = [(''Content-Type'', ''text/html; charset=utf-8'')]
           \<and> status r = unsigned_short st \<and> 200 \<le> status r \<and> status r \<le> 599)
   \<and> (\<forall>n r w'. render_callback env opts (Node n) given w = (Inr r, w')
       \<longrightarrow> headers r = [(''Content-Type'', ''text/html; charset=utf-8'')])
   \<and> (\<forall>n w1 r w'. f c hctx w = (Inr (Node n), w1)
          \<and> run_handler env (ComponentH f hctx opts) c w = (Inr r, w')
       \<longrightarrow> status r = 200 \<and> headers r = [(''Content-Type'', ''text/html; charset=utf-8'')])
   \<and> (\<forall>n w1 r w'. f c hctx w = (Inr (Node n), w1)
          \<and> run_handler env (MethodH f hctx opts) c w = (Inr r, w')
       \<longrightarrow> status r = 200 \<and> headers r = [(''Content-Type'', ''text/html; charset=utf-8'')])
   \<and> (\<forall>n w1 r w'. nf c None hctx w = (Inr (Node n), w1)
          \<and> run_handler env (NotFoundH nf hctx opts) c w = (Inr r, w')
       \<longrightarrow> status r = 404 \<and> headers r = [(''Content-Type'', ''text/html; charset=utf-8'')])
   \<and> (\<forall>n w1 r w'. eh c (Some err) hctx w = (Inr (Node n), w1)
          \<and> run_error_handler env (ErrorH eh hctx opts) err c w = (Inr r, w')
       \<longrightarrow> status r = 500 \<and> headers r = [(''Content-Type'', ''text/html; charset=utf-8'')])"
proof -
  have c1: "\<forall>n r w'. toWebResponse env (Node n) st opts w = (Inr r, w')
       \<longrightarrow> headers r = [(''Content-Type'', ''text/html; charset=utf-8'')]
           \<and> status r = unsigned_short st \<and> 200 \<le> status r \<and> status r \<le> 599"
    using toWebResponse_Node_response [of env _ st opts w] by blast
  have c2: "\<forall>n r w'. render_callback env opts (Node n) given w = (Inr r, w')
       \<longrightarrow> headers r = [(''Content-Type'', ''text/html; charset=utf-8'')]"
    using toWebResponse_Node_response [of env _ _ opts w] by (simp add: render_callback_def)
  have c3: "\<forall>n w1 r w'. f c hctx w = (Inr (Node n), w1)
          \<and> run_handler env (ComponentH f hctx opts) c w = (Inr r, w')
       \<longrightarrow> status r = 200 \<and> headers r = [(''Content-Type'', ''text/html; charset=utf-8'')]"
    using handler_conventions(1) [of f c hctx w _ _ env opts] by blast
  have c4: "\<forall>n w1 r w'. f c hctx w = (Inr (Node n), w1)
          \<and> run_handler env (MethodH f hctx opts) c w = (Inr r, w')
       \<longrightarrow> status r = 200 \<and> headers r = [(''Content-Type'', ''text/html; charset=utf-8'')]"
    using handler_conventions(2) [of f c hctx w _ _ env opts] by blast
  have c5: "\<forall>n w1 r w'. nf c None hctx w = (Inr (Node n), w1)
          \<and> run_handler env (NotFoundH nf hctx opts) c w = (Inr r, w')
       \<longrightarrow> status r = 404 \<and> headers r = [(''Content-Type'', ''text/html; charset=utf-8'')]"
    using handler_conventions(3) [of nf c hctx w _ _ env opts] by blast
  have c6: "\<forall>n w1 r w'. eh c (Some err) hctx w = (Inr (Node n), w1)
          \<and> run_error_handler env (ErrorH eh hctx opts) err c w = (Inr r, w')
       \<longrightarrow> status r = 500 \<and> headers r = [(''Content-Type'', ''text/html; charset=utf-8'')]"
    using handler_conventions(4) [of eh c err hctx w _ _ env opts] by blast
  show ?thesis
    by (rule c1 c2 c3 c4 c5 c6 conjI)+
qed

theorem rendered_response_conventions_witness:
  "run_handler scope0 (ComponentH page 0 \<lparr>head = 0, layouts = None, filename = ''page.tsx''\<rparr>) 7 []
     = (Inr \<lparr>status = 200, headers = [(''Content-Type'', ''text/html; charset=utf-8'')], body = ''page''\<rparr>,
        [(7, 0)])
   \<and> run_handler scope0 (MethodH page 0 \<lparr>head = 0, layouts = None, filename = ''page.tsx''\<rparr>) 7 []
     = (Inr \<lparr>status = 200, headers = [(''Content-Type'', ''text/html; charset=utf-8'')], body = ''page''\<rparr>,
        [(7, 0)])
   \<and> run_handler scope0 (NotFoundH missing 0 \<lparr>head = 0, layouts = None, filename = ''page.tsx''\<rparr>) 7 []
     = (Inr \<lparr>status = 404, headers = [(''Content-Type'', ''text/html; charset=utf-8'')], body = ''missing''\<rparr>,
        [(7, 0)])
   \<and> run_error_handler scope0 (ErrorH failed 0 \<lparr>head = 0, layouts = None, filename = ''page.tsx''\<rparr>)
        TypeError 7 []
     = (Inr \<lparr>status = 500, headers = [(''Content-Type'', ''text/html; charset=utf-8'')], body = ''failed''\<rparr>,
        [(7, 0)])
   \<and> render_callback scope0 \<lparr>head = 0, layouts = None, filename = ''page.tsx''\<rparr> (Node ''page'')
        (Some 65736) []
     = (Inr \<lparr>status = 200, headers = [(''Content-Type'', ''text/html; charset=utf-8'')], body = ''page''\<rparr>,
        [])"
proof -
  let ?o = "\<lparr>head = 0, layouts = None, filename = ''page.tsx''\<rparr>"
  have u: "page 7 0 [] = (Inr (Node ''page''), [(7, 0)])"
    "missing 7 None 0 [] = (Inr (Node ''missing''), [(7, 0)])"
    "failed 7 (Some TypeError) 0 [] = (Inr (Node ''failed''), [(7, 0)])"
    by (simp_all add: page_def missing_def failed_def)
  have l: "LAYOUTS scope0 (root scope0 @ ''/_layout.tsx'') = None" "render scope0 = (\<lambda>n. n)"
    by (simp_all add: scope0_def)
  have "\<exists>r. run_handler scope0 (ComponentH page 0 ?o) 7 [] = (Inr r, [(7, 0)]) \<and> body r = ''page''"
    by (simp add: bind_eff_def u toWebResponse_def l returnHtml_def has_length_def unsigned_short_def)
  then obtain r1 where r1: "run_handler scope0 (ComponentH page 0 ?o) 7 [] = (Inr r1, [(7, 0)])" "body r1 = ''page''"
    by blast
  have "\<exists>r. run_handler scope0 (MethodH page 0 ?o) 7 [] = (Inr r, [(7, 0)]) \<and> body r = ''page''"
    by (simp add: bind_eff_def u toWebResponse_def l returnHtml_def has_length_def unsigned_short_def)
  then obtain r2 where r2: "run_handler scope0 (MethodH page 0 ?o) 7 [] = (Inr r2, [(7, 0)])" "body r2 = ''page''"
    by blast
  have "\<exists>r. run_handler scope0 (NotFoundH missing 0 ?o) 7 [] = (Inr r, [(7, 0)]) \<and> body r = ''missing''"
    by (simp add: bind_eff_def u toWebResponse_def l returnHtml_def has_length_def unsigned_short_def)
  then obtain r3 where r3: "run_handler scope0 (NotFoundH missing 0 ?o) 7 [] = (Inr r3, [(7, 0)])" "body r3 = ''missing''"
    by blast
  have "\<exists>r. run_error_handler scope0 (ErrorH failed 0 ?o) TypeError 7 [] = (Inr r, [(7, 0)]) \<and> body r = ''failed''"
    by (simp add: bind_eff_def u toWebResponse_def l returnHtml_def has_length_def unsigned_short_def)
  then obtain r4 where r4: "run_error_handler scope0 (ErrorH failed 0 ?o) TypeError 7 [] = (Inr r4, [(7, 0)])" "body r4 = ''failed''"
    by blast
  have "\<exists>r. render_callback scope0 ?o (Node ''page'') (Some 65736) [] = (Inr r, []) \<and> body r = ''page''"
    by (simp add: render_callback_def toWebResponse_def l returnHtml_def has_length_def unsigned_short_def)
  then obtain r5 where r5: "render_callback scope0 ?o (Node ''page'') (Some 65736) [] = (Inr r5, [])" "body r5 = ''page''"
    by blast
  note t = rendered_response_conventions
    [where env = scope0 and opts = ?o and w = "[]" and f = page and c = 7 and hctx = 0
       and nf = missing and eh = failed and err = TypeError and st = 65736 and given = "Some 65736"]
  have "status r1 = 200 \<and> headers r1 = [(''Content-Type'', ''text/html; charset=utf-8'')]"
    using t u(1) r1(1) by blast
  then have e1: "r1 = \<lparr>status = 200, headers = [(''Content-Type'', ''text/html; charset=utf-8'')], body = ''page''\<rparr>"
    using r1(2) by (cases r1) simp
  have "status r2 = 200 \<and> headers r2 = [(''Content-Type'', ''text/html; charset=utf-8'')]"
    using t u(1) r2(1) by blast
  then have e2: "r2 = \<lparr>status = 200, headers = [(''Content-Type'', ''text/html; charset=utf-8'')], body = ''page''\<rparr>"
    using r2(2) by (cases r2) simp
  have "status r3 = 404 \<and> headers r3 = [(''Content-Type'', ''text/html; charset=utf-8'')]"
    using t u(2) r3(1) by blast
  then have e3: "r3 = \<lparr>status = 404, headers = [(''Content-Type'', ''text/html; charset=utf-8'')], body = ''missing''\<rparr>"
    using r3(2) by (cases r3) simp
  have "status r4 = 500 \<and> headers r4 = [(''Content-Type'', ''text/html; charset=utf-8'')]"
    using t u(3) r4(1) by blast
  then have e4: "r4 = \<lparr>status = 500, headers = [(''Content-Type'', ''text/html; charset=utf-8'')], body = ''failed''\<rparr>"
    using r4(2) by (cases r4) simp
  have tw: "toWebResponse scope0 (Node ''page'') 65736 ?o [] = (Inr r5, [])"
    using r5(1) by (simp add: render_callback_def)
  have "headers r5 = [(''Content-Type'', ''text/html; charset=utf-8'')] \<and> status r5 = unsigned_short 65736"
    using t [THEN conjunct1, rule_format, OF tw] by simp
  then have e5: "r5 = \<lparr>status = 200, headers = [(''Content-Type'', ''text/html; charset=utf-8'')], body = ''page''\<rparr>"
    using r5(2) by (cases r5) (simp add: unsigned_short_def)
  show ?thesis
    using r1(1) r2(1) r3(1) r4(1) r5(1) unfolding e1 e2 e3 e4 e5 by simp
qed

section \<open>The calls of the installer\<close>




lemma createApp_split:
  "createApp env = fst (install_dirs env 0 (routesMap env) 0)
     @ install_root env (snd (install_dirs env 0 (routesMap env) 0))"
  by (simp add: createApp_def split: prod.splits)

lemma install_file_mounted:
  "fetch rd \<noteq> None \<Longrightarrow>
   install_file env i dir lays (fname, Some rd) k
     = ([SubRoute i (filePathToPath env fname) rd, AppRoute (stripRoot env dir) i], k)"
  by (simp add: install_file_def)

lemma install_preserved_methods:
  "c \<in> set (install_preserved rt i dir hctx opts entry) \<Longrightarrow> route_method c = Some m \<Longrightarrow> m = ''GET''"
  by (auto simp: install_preserved_def split: prod.splits if_splits option.splits)

text \<open>The closures of one turn capture the render context requested in that turn.\<close>

lemma install_preserved_heads:
  "c \<in> set (install_preserved rt i dir hctx opts entry) \<Longrightarrow> set (call_heads c) \<subseteq> {hctx, head opts}"
  by (auto simp: install_preserved_def split: prod.splits if_splits option.splits)

lemma install_member_heads:
  "c \<in> set (install_member i path hctx opts m) \<Longrightarrow> set (call_heads c) \<subseteq> {hctx, head opts}"
  by (induction i path hctx opts m rule: install_member.induct) auto

lemma install_file_heads:
  "c \<in> set (fst (install_file env i dir lays file k)) \<Longrightarrow>
   set (call_heads c) \<subseteq> {new_head (createHead env) k}"
  by (auto simp: install_file_def Let_def split: prod.splits option.splits if_splits
      dest!: install_preserved_heads install_member_heads)

lemma install_root_heads:
  "c \<in> set (install_root env k) \<Longrightarrow> set (call_heads c) \<subseteq> {new_head (createHead env) k}"
  by (auto simp: install_root_def Let_def split: option.splits)

section \<open>The Route Installer: mounted apps, components, order of registration\<close>



text \<open>
  C10. The \<^verbatim>\<open>fetch\<close> test comes first: for a default export with a \<^verbatim>\<open>fetch\<close>
  member, whatever else it is (callable, with method or \<^verbatim>\<open>APP\<close> entries), the
  iteration only mounts: it registers no GET handler, no method handler, no preserved
  handler, calls no app handler and requests no render context.
\<close>

theorem dispatch_capability_classified_first:
  "fetch rd \<noteq> None \<longrightarrow>
     (\<forall>c \<in> set (fst (install_file env i dir lays (fname, Some rd) k)). is_mount c)
     \<and> snd (install_file env i dir lays (fname, Some rd) k) = k"
  by (simp add: install_file_def)

theorem dispatch_capability_classified_first_witness:
  "fetch hybrid \<noteq> None \<and> callable hybrid = Some page
   \<and> entries hybrid = [Method ''POST'' (Some page), APP (Some ''setup'')]
   \<and> map is_mount (fst (install_file mounted_dir 0 ''/app/routes/a'' None (''api.ts'', Some hybrid) 0))
        = [True, True]
   \<and> snd (install_file mounted_dir 0 ''/app/routes/a'' None (''api.ts'', Some hybrid) 0) = 0"
proof -
  have f: "fetch hybrid \<noteq> None"
    by (simp add: hybrid_def)
  have l: "length (fst (install_file mounted_dir 0 ''/app/routes/a'' None (''api.ts'', Some hybrid) 0)) = 2"
    using f by (simp add: install_file_def)
  from dispatch_capability_classified_first
    [of hybrid mounted_dir 0 "''/app/routes/a''" None "''api.ts''" 0, THEN mp, OF f]
  have m: "\<forall>c \<in> set (fst (install_file mounted_dir 0 ''/app/routes/a'' None (''api.ts'', Some hybrid) 0)). is_mount c"
    and k: "snd (install_file mounted_dir 0 ''/app/routes/a'' None (''api.ts'', Some hybrid) 0) = 0"
    by blast+
  obtain a b where ab: "fst (install_file mounted_dir 0 ''/app/routes/a'' None (''api.ts'', Some hybrid) 0) = [a, b]"
    using l by (auto simp: length_Suc_conv numeral_2_eq_2)
  with m have "map is_mount (fst (install_file mounted_dir 0 ''/app/routes/a'' None (''api.ts'', Some hybrid) 0))
        = [True, True]"
    by simp
  with f k show ?thesis
    by (simp add: hybrid_def)
qed

text \<open>
  C9. For a default export that is a plain function (no \<^verbatim>\<open>fetch\<close> member, no
  enumerable entries) the iteration registers the component with \<^verbatim>\<open>subApp.get\<close> at the
  file's path, then the directory's preserved handlers, then mounts the sub-router: every
  request handler it registers is registered for GET, none for another method.
\<close>

theorem component_registered_for_get_only:
  "fetch rd = None \<and> callable rd = Some f \<and> entries rd = [] \<longrightarrow>
     fst (install_file env i dir lays (fname, Some rd) k)
       = SubGet i (filePathToPath env fname)
           (ComponentH f (new_head (createHead env) k)
              \<lparr>head = new_head (createHead env) k, layouts = lays, filename = fname\<rparr>)
         # concat (map (install_preserved (root env) i dir (new_head (createHead env) k)
                          \<lparr>head = new_head (createHead env) k, layouts = lays, filename = fname\<rparr>)
                     (preservedMap env))
         @ [AppRoute (stripRoot env dir) i]
     \<and> (\<forall>c \<in> set (fst (install_file env i dir lays (fname, Some rd) k)).
          \<forall>m. route_method c = Some m \<longrightarrow> m = ''GET'')"
  by (auto simp: install_file_def Let_def dest: install_preserved_methods)

theorem component_registered_for_get_only_witness:
  "fetch (component page) = None \<and> callable (component page) = Some page
   \<and> entries (component page) = []
   \<and> createApp one_page =
       [SubGet 0 ''/page'' (ComponentH page 0 \<lparr>head = 0, layouts = None, filename = ''page.tsx''\<rparr>),
        AppRoute [] 0]
   \<and> map route_method (createApp one_page) = [Some ''GET'', None]"
proof -
  have c: "fetch (component page) = None \<and> callable (component page) = Some page
      \<and> entries (component page) = []"
    by (simp add: component_def)
  have rm: "routesMap one_page = [(''/app/routes'', [(''page.tsx'', Some (component page))])]"
    and pm: "preservedMap one_page = []"
    and v: "filePathToPath one_page ''page.tsx'' = ''/page''" "stripRoot one_page ''/app/routes'' = []"
      "new_head (createHead one_page) 0 = 0"
    by (simp_all add: one_page_def scope0_def example_path_def example_strip_def new_head_def)
  have s: "snd (install_file one_page 0 ''/app/routes'' None (''page.tsx'', Some (component page)) 0) = Suc 0"
    using c by (simp add: install_file_def Let_def)
  note t = component_registered_for_get_only
    [of "component page" page one_page 0 "''/app/routes''" None "''page.tsx''" 0,
     THEN mp, OF c, THEN conjunct1, unfolded pm v, simplified]
  have "createApp one_page =
       [SubGet 0 ''/page'' (ComponentH page 0 \<lparr>head = 0, layouts = None, filename = ''page.tsx''\<rparr>),
        AppRoute [] 0]"
  proof -
    have "install_file one_page 0 ''/app/routes'' None (''page.tsx'', Some (component page)) 0 =
       ([SubGet 0 ''/page'' (ComponentH page 0 \<lparr>head = 0, layouts = None, filename = ''page.tsx''\<rparr>),
         AppRoute [] 0], Suc 0)"
      using t s by (simp add: prod_eq_iff)
    then show ?thesis
      by (simp add: createApp_def rm install_root_def pm resolve_one_page)
  qed
  with c show ?thesis by simp
qed

text \<open>
  C3. The preserved files are installed inside the loop over the directory's route files,
  at the end of every turn: in a directory with the two components \<^verbatim>\<open>x.tsx\<close> and
  \<^verbatim>\<open>y.tsx\<close> and a \<^verbatim>\<open>_404.tsx\<close>, the catch-all of the first turn is registered (and
  the sub-router mounted) before the handler of \<^verbatim>\<open>y.tsx\<close>.
\<close>

theorem preserved_installed_in_every_turn:
  "createApp two_pages =
     [SubGet 0 ''/x'' (ComponentH page 0 \<lparr>head = 0, layouts = None, filename = ''x.tsx''\<rparr>),
      SubGet 0 ''*'' (NotFoundH missing 0 \<lparr>head = 0, layouts = None, filename = ''x.tsx''\<rparr>),
      AppRoute ''/a'' 0,
      SubGet 0 ''/y'' (ComponentH page 1 \<lparr>head = 1, layouts = None, filename = ''y.tsx''\<rparr>),
      SubGet 0 ''*'' (NotFoundH missing 1 \<lparr>head = 1, layouts = None, filename = ''y.tsx''\<rparr>),
      AppRoute ''/a'' 0]"
proof -
  have r: "resolve_layouts (layoutList two_pages) ''/app/routes/a'' = None"
    by (rule resolve_layouts_absolute_empty) (simp add: two_pages_def scope0_def)
  have v: "routesMap two_pages =
      [(''/app/routes/a'', [(''x.tsx'', Some (component page)), (''y.tsx'', Some (component page))])]"
    "preservedMap two_pages = [(''/app/routes/a'', [''_404.tsx'' \<mapsto> missing])]"
    "root two_pages = ''/app/routes''" "createHead two_pages = None"
    "filePathToPath two_pages = example_path" "stripRoot two_pages = example_strip"
    by (simp_all add: two_pages_def scope0_def)
  show ?thesis
    by (simp add: createApp_def v r install_file_def install_root_def install_preserved_def Let_def
        component_def new_head_def example_path_def example_strip_def NOTFOUND_FILENAME_def
        ERROR_FILENAME_def)
qed

section \<open>Preserved handlers and the layout walk at their limits\<close>

text \<open>
  C4. In the non-root directory \<open>a\<close>, which has a \<^verbatim>\<open>_404.tsx\<close> and an
  \<^verbatim>\<open>_error.tsx\<close> and whose only route file is a mounted app, \<^verbatim>\<open>createApp\<close> makes
  the two mount calls and nothing else: the \<^verbatim>\<open>continue\<close> of the mounted-app branch
  leaves the turn before the preserved block, which sits inside the loop over the route
  files (the placement of C3), so neither preserved handler is registered on the
  directory's sub-router.
\<close>

theorem preserved_skipped_for_mounted_directory:
  "createApp mounted_only = [SubRoute 0 ''/api'' mounted, AppRoute ''/a'' 0]"
proof -
  have v: "routesMap mounted_only = [(''/app/routes/a'', [(''api.ts'', Some mounted)])]"
    "map_of (preservedMap mounted_only) (root mounted_only) = None"
    "filePathToPath mounted_only = example_path" "stripRoot mounted_only = example_strip"
    by (simp_all add: mounted_only_def scope0_def)
  have f: "fetch mounted \<noteq> None"
    by (simp add: mounted_def)
  show ?thesis
    by (simp add: createApp_def v install_root_def install_file_mounted [OF f] example_path_def
        example_strip_def)
qed

text \<open>
  C5. A component is registered under the relative directory \<^verbatim>\<open>constructor/b\<close>, and
  there is no layout anywhere, the root included. The directory has no entry in the layout
  index; its truncation \<^verbatim>\<open>constructor\<close> has none either, but the lookup finds
  \<^verbatim>\<open>Object.prototype.constructor\<close>, and the walk stops there. The handler is registered
  with that function as its layouts, and at a request \<^verbatim>\<open>toWebResponse\<close> raises a
  \<^verbatim>\<open>TypeError\<close> after the component has run, instead of answering with the bare
  serialization of the component's result. Under \<^verbatim>\<open>pages/b\<close> the same route file is
  registered without layouts and answers 200 with the bare serialization.
\<close>

theorem inherited_member_taken_for_layouts:
  "createApp inherited_dir =
     [SubGet 0 ''/page''
        (ComponentH page 0 \<lparr>head = 0, layouts = Some (Member (Some 1)), filename = ''page.tsx''\<rparr>),
      AppRoute ''constructor/b'' 0]
   \<and> run_handler inherited_dir
         (ComponentH page 0 \<lparr>head = 0, layouts = Some (Member (Some 1)), filename = ''page.tsx''\<rparr>)
         7 []
       = (Inl TypeError, [(7, 0)])
   \<and> createApp relative_dir =
       [SubGet 0 ''/page''
          (ComponentH page 0 \<lparr>head = 0, layouts = None, filename = ''page.tsx''\<rparr>),
        AppRoute ''pages/b'' 0]
   \<and> run_handler relative_dir
         (ComponentH page 0 \<lparr>head = 0, layouts = None, filename = ''page.tsx''\<rparr>) 7 []
       = (Inr \<lparr>status = 200, headers = [(''Content-Type'', ''text/html; charset=utf-8'')],
               body = ''page''\<rparr>, [(7, 0)])"
proof -
  have e: "layoutList inherited_dir ''constructor/b'' = None" "layoutList inherited_dir ''constructor'' = None"
    by (simp_all add: inherited_dir_def scope0_def)
  have "resolve_layouts (layoutList inherited_dir) (''constructor'' @ CHR ''/'' # ''b'')
      = resolve_layouts (layoutList inherited_dir) ''constructor''"
    using e by (intro resolve_layouts_parent) simp_all
  also have "\<dots> = map_option Member (map_of object_prototype ''constructor'')"
    using e by (intro resolve_layouts_top) simp_all
  finally have r: "resolve_layouts (layoutList inherited_dir) ''constructor/b'' = Some (Member (Some 1))"
    by (simp add: object_prototype_def)
  have v: "routesMap inherited_dir = [(''constructor/b'', [(''page.tsx'', Some (component page))])]"
    "preservedMap inherited_dir = []" "root inherited_dir = ''/app/routes''"
    "createHead inherited_dir = None" "filePathToPath inherited_dir = example_path"
    "stripRoot inherited_dir = example_strip"
    by (simp_all add: inherited_dir_def scope0_def)
  have "createApp inherited_dir =
     [SubGet 0 ''/page''
        (ComponentH page 0 \<lparr>head = 0, layouts = Some (Member (Some 1)), filename = ''page.tsx''\<rparr>),
      AppRoute ''constructor/b'' 0]"
    by (simp add: createApp_def v r install_file_def install_root_def Let_def component_def
        new_head_def example_path_def example_strip_def)
  moreover have "run_handler inherited_dir
         (ComponentH page 0 \<lparr>head = 0, layouts = Some (Member (Some 1)), filename = ''page.tsx''\<rparr>)
         7 []
       = (Inl TypeError, [(7, 0)])"
    by (simp add: bind_eff_def page_def toWebResponse_def has_length_def)
  moreover have "createApp relative_dir =
       [SubGet 0 ''/page''
          (ComponentH page 0 \<lparr>head = 0, layouts = None, filename = ''page.tsx''\<rparr>),
        AppRoute ''pages/b'' 0]"
  proof -
    have e': "layoutList relative_dir ''pages/b'' = None" "layoutList relative_dir ''pages'' = None"
      by (simp_all add: relative_dir_def scope0_def)
    have "resolve_layouts (layoutList relative_dir) (''pages'' @ CHR ''/'' # ''b'')
        = resolve_layouts (layoutList relative_dir) ''pages''"
      using e' by (intro resolve_layouts_parent) simp_all
    also have "\<dots> = map_option Member (map_of object_prototype ''pages'')"
      using e' by (intro resolve_layouts_top) simp_all
    finally have r': "resolve_layouts (layoutList relative_dir) ''pages/b'' = None"
      by (simp add: object_prototype_def)
    have v': "routesMap relative_dir = [(''pages/b'', [(''page.tsx'', Some (component page))])]"
      "preservedMap relative_dir = []" "root relative_dir = ''/app/routes''"
      "createHead relative_dir = None" "filePathToPath relative_dir = example_path"
      "stripRoot relative_dir = example_strip"
      by (simp_all add: relative_dir_def scope0_def)
    show ?thesis
      by (simp add: createApp_def v' r' install_file_def install_root_def Let_def component_def
          new_head_def example_path_def example_strip_def)
  qed
  moreover have "run_handler relative_dir
         (ComponentH page 0 \<lparr>head = 0, layouts = None, filename = ''page.tsx''\<rparr>) 7 []
       = (Inr \<lparr>status = 200, headers = [(''Content-Type'', ''text/html; charset=utf-8'')],
               body = ''page''\<rparr>, [(7, 0)])"
    by (simp add: bind_eff_def page_def toWebResponse_def has_length_def returnHtml_def
        unsigned_short_def relative_dir_def scope0_def)
  ultimately show ?thesis by simp
qed

section \<open>The turns of the installer\<close>

lemma install_flat_append:
  "install_flat env (xs @ ys) k =
     (case install_flat env xs k of (cs, k') \<Rightarrow>
        (case install_flat env ys k' of (cs', k'') \<Rightarrow> (cs @ cs', k'')))"
  by (induction xs arbitrary: k) (auto split: prod.splits)

lemma install_files_flat:
  "install_files env i dir (resolve_layouts (layoutList env) dir) files k
     = install_flat env (map (\<lambda>file. (i, dir, file)) files) k"
  by (induction files arbitrary: k) (auto split: prod.splits)

lemma install_dirs_flat:
  "install_dirs env i dirs k
     = install_flat env
         (concat (map (\<lambda>(j, dir, content). map (\<lambda>file. (j, dir, file)) content)
                    (zip [i..<i + length dirs] dirs))) k"
proof (induction dirs arbitrary: i k)
  case Nil
  then show ?case by simp
next
  case (Cons d ds)
  let ?F = "\<lambda>(j, dir, content). map (\<lambda>file. (j, dir, file)) content"
  obtain dir content where d: "d = (dir, content)" by (cases d)
  have "[i..<i + length (d # ds)] = i # [Suc i..<Suc i + length ds]"
    by (simp del: upt_Suc add: upt_conv_Cons)
  then have z: "zip [i..<i + length (d # ds)] (d # ds)
      = (i, dir, content) # zip [Suc i..<Suc i + length ds] ds"
    by (simp only: d zip_Cons_Cons)
  have "install_dirs env i (d # ds) k =
      (case install_flat env (map (\<lambda>file. (i, dir, file)) content) k of (cs, k') \<Rightarrow>
         (case install_flat env (concat (map ?F (zip [Suc i..<Suc i + length ds] ds))) k' of
            (cs', k'') \<Rightarrow> (cs @ cs', k'')))"
    unfolding d install_dirs.simps install_files_flat Cons.IH ..
  also have "\<dots> = install_flat env
      (map (\<lambda>file. (i, dir, file)) content @ concat (map ?F (zip [Suc i..<Suc i + length ds] ds))) k"
    by (simp only: install_flat_append)
  also have "\<dots> = install_flat env (concat (map ?F (zip [i..<i + length (d # ds)] (d # ds)))) k"
    by (simp only: z list.map concat.simps prod.case)
  finally show ?case .
qed

lemma install_file_snd:
  "snd (install_file env i dir lays file k) = (if requests_context (i, dir, file) then Suc k else k)"
  by (cases "file") (auto simp: install_file_def requests_context_def Let_def split: option.splits)

lemma install_flat_closed:
  "install_flat env ts k =
     (concat (map (\<lambda>j. case ts ! j of (i, dir, file) \<Rightarrow>
                      fst (install_file env i dir (resolve_layouts (layoutList env) dir) file
                             (k + length (filter requests_context (take j ts)))))
                [0..<length ts]),
      k + length (filter requests_context ts))"
proof (induction ts rule: rev_induct)
  case Nil
  then show ?case by simp
next
  case (snoc t ts)
  obtain i dir rf where t: "t = (i, dir, rf)" by (cases t)
  let ?g = "\<lambda>xs j. case xs ! j of (i, dir, file) \<Rightarrow>
      fst (install_file env i dir (resolve_layouts (layoutList env) dir) file
             (k + length (filter requests_context (take j xs))))"
  have old: "map (?g (ts @ [t])) [0..<length ts] = map (?g ts) [0..<length ts]"
    by (auto simp: nth_append)
  have new: "?g (ts @ [t]) (length ts)
      = fst (install_file env i dir (resolve_layouts (layoutList env) dir) rf
               (k + length (filter requests_context ts)))"
    by (simp add: t)
  have one: "install_flat env [t] k' =
      (fst (install_file env i dir (resolve_layouts (layoutList env) dir) rf k'),
       if requests_context t then Suc k' else k')" for k'
    using install_file_snd [of env i dir "resolve_layouts (layoutList env) dir" rf k']
    by (cases "install_file env i dir (resolve_layouts (layoutList env) dir) rf k'") (auto simp: t)
  have u: "[0..<length (ts @ [t])] = [0..<length ts] @ [length ts]"
    by simp
  have rhs: "concat (map (?g (ts @ [t])) [0..<length (ts @ [t])])
      = concat (map (?g ts) [0..<length ts])
        @ fst (install_file env i dir (resolve_layouts (layoutList env) dir) rf
                 (k + length (filter requests_context ts)))"
    unfolding u map_append concat_append old list.map concat.simps new by simp
  have cnt: "k + length (filter requests_context (ts @ [t]))
      = (if requests_context t then Suc (k + length (filter requests_context ts))
         else k + length (filter requests_context ts))"
    by simp
  show ?case
    unfolding install_flat_append snoc.IH one rhs cnt by simp
qed

lemma createApp_turns:
  "createApp env =
     concat (map (turn env) [0..<length (route_files env)])
     @ install_root env (contexts_before env (length (route_files env)))"
proof -
  have "install_dirs env 0 (routesMap env) 0 = install_flat env (route_files env) 0"
    by (simp add: install_dirs_flat route_files_def)
  moreover have "turn env = (\<lambda>j. case route_files env ! j of (i, dir, file) \<Rightarrow>
      fst (install_file env i dir (resolve_layouts (layoutList env) dir) file
             (0 + length (filter requests_context (take j (route_files env))))))"
    by (rule ext) (simp add: turn_def contexts_before_def)
  ultimately show ?thesis
    by (simp only: createApp_def install_flat_closed prod.case contexts_before_def take_all order_refl
        add_0)
qed

lemma filter_take_mono: "length (filter P (take m ys)) \<le> length (filter P ys)"
proof -
  have "length (filter P ys) = length (filter P (take m ys @ drop m ys))"
    by simp
  also have "\<dots> = length (filter P (take m ys)) + length (filter P (drop m ys))"
    by (simp only: filter_append length_append)
  finally show ?thesis by simp
qed

lemma filter_take_strict:
  assumes "j < j'" and "j' \<le> length xs" and "P (xs ! j)"
  shows "length (filter P (take j xs)) < length (filter P (take j' xs))"
proof -
  have "take (Suc j) xs = take j xs @ [xs ! j]"
    using assms(1,2) by (simp add: take_Suc_conv_app_nth)
  then have "length (filter P (take (Suc j) xs)) = Suc (length (filter P (take j xs)))"
    using assms(3) by simp
  moreover have "take (Suc j) xs = take (Suc j) (take j' xs)"
    using assms(1) by (simp add: min_def)
  then have "length (filter P (take (Suc j) xs)) \<le> length (filter P (take j' xs))"
    using filter_take_mono [of P "Suc j" "take j' xs"] by simp
  ultimately show ?thesis by simp
qed

text \<open>A handler passes its layouts nothing but the render context of its options.\<close>

lemma apply_layouts_same_at:
  "same_at x env env' \<Longrightarrow>
   apply_layouts (LAYOUTS env) x fn ps res w = apply_layouts (LAYOUTS env') x fn ps res w"
proof (induction ps arbitrary: res w)
  case Nil
  then show ?case by simp
next
  case (Cons p ps)
  from Cons.prems have p: "case LAYOUTS env p of
        None \<Rightarrow> LAYOUTS env' p = None
      | Some l \<Rightarrow> (case LAYOUTS env' p of None \<Rightarrow> False
                    | Some l' \<Rightarrow> (\<forall>res fn w. l res x fn w = l' res x fn w))"
    by (simp add: same_at_def)
  show ?case
  proof (cases "LAYOUTS env p")
    case None
    with p Cons.IH [OF Cons.prems] show ?thesis by simp
  next
    case (Some l)
    with p obtain l' where l': "LAYOUTS env' p = Some l'" "\<And>res fn w. l res x fn w = l' res x fn w"
      by (cases "LAYOUTS env' p") auto
    show ?thesis
      using Some l' Cons.IH [OF Cons.prems] by (simp split: prod.splits sum.splits)
  qed
qed

lemma toWebResponse_same_at:
  assumes "same_at x env env'" and "head opts = x"
  shows "toWebResponse env res st opts w = toWebResponse env' res st opts w"
proof -
  have r: "root env = root env'" "render env = render env'"
    using assms(1) by (simp_all add: same_at_def)
  have d: "case LAYOUTS env p of
        None \<Rightarrow> LAYOUTS env' p = None
      | Some l \<Rightarrow> (case LAYOUTS env' p of None \<Rightarrow> False
                    | Some l' \<Rightarrow> (\<forall>res fn w. l res x fn w = l' res x fn w))" for p
    using assms(1) by (simp add: same_at_def)
  show ?thesis
    using d [of "root env' @ ''/_layout.tsx''"] apply_layouts_same_at [OF assms(1)] assms(2)
    unfolding toWebResponse_def r
    by (auto split: result.splits option.splits layouts_value.splits)
qed

section \<open>The render context\<close>

text \<open>
  C2 as stated fails: the render context is requested when the route file is installed,
  and the handler closes over it. Two requests to the one installed component are both
  passed the context at address 0 (the component logs the request with the context it
  receives).
\<close>

theorem render_context_shared_counterexample:
  "createApp one_page =
     [SubGet 0 ''/page'' (ComponentH page 0 \<lparr>head = 0, layouts = None, filename = ''page.tsx''\<rparr>),
      AppRoute [] 0]
   \<and> snd (run_handler one_page
            (ComponentH page 0 \<lparr>head = 0, layouts = None, filename = ''page.tsx''\<rparr>) 2
            (snd (run_handler one_page
                    (ComponentH page 0 \<lparr>head = 0, layouts = None, filename = ''page.tsx''\<rparr>) 1 [])))
       = [(1, 0), (2, 0)]"
proof -
  have v: "routesMap one_page = [(''/app/routes'', [(''page.tsx'', Some (component page))])]"
    "preservedMap one_page = []" "root one_page = ''/app/routes''" "createHead one_page = None"
    "filePathToPath one_page = example_path" "stripRoot one_page = example_strip"
    "LAYOUTS one_page = Map.empty"
    by (simp_all add: one_page_def scope0_def)
  have "createApp one_page =
     [SubGet 0 ''/page'' (ComponentH page 0 \<lparr>head = 0, layouts = None, filename = ''page.tsx''\<rparr>),
      AppRoute [] 0]"
    by (simp add: createApp_def v resolve_one_page install_file_def install_root_def Let_def
        component_def new_head_def example_path_def example_strip_def)
  moreover have "snd (run_handler one_page
            (ComponentH page 0 \<lparr>head = 0, layouts = None, filename = ''page.tsx''\<rparr>) 2
            (snd (run_handler one_page
                    (ComponentH page 0 \<lparr>head = 0, layouts = None, filename = ''page.tsx''\<rparr>) 1 [])))
       = [(1, 0), (2, 0)]"
    by (simp add: bind_eff_def page_def toWebResponse_def v returnHtml_def has_length_def
        unsigned_short_def)
  ultimately show ?thesis by simp
qed

text \<open>
  C2, amended. The calls of \<^verbatim>\<open>createApp\<close> are those of the turns of the route files,
  in order, followed by the root-level ones, and a render context is requested once in
  every turn whose file has a default export without a \<^verbatim>\<open>fetch\<close> member, and once more
  for the root-level handlers. Every closure registered in a turn captures the context
  requested in that turn and no other, and every root-level closure the last one. With
  the built-in constructor the context of a route file differs from that of every later
  turn and from the root-level one. A registered handler, at every request, passes the
  context it captured and no other to the user function and to the layouts: what it
  answers does not depend on what those do with another context; the same holds of the
  render callback.
\<close>

theorem render_context_per_route_file:
  "createApp env =
     concat (map (turn env) [0..<length (route_files env)])
     @ install_root env (contexts_before env (length (route_files env)))
   \<and> (\<forall>j < length (route_files env). \<forall>c \<in> set (turn env j).
         set (call_heads c) \<subseteq> {new_head (createHead env) (contexts_before env j)})
   \<and> (\<forall>c \<in> set (install_root env (contexts_before env (length (route_files env)))).
         set (call_heads c)
           \<subseteq> {new_head (createHead env) (contexts_before env (length (route_files env)))})
   \<and> (createHead env = None \<longrightarrow>
        (\<forall>j j'. j < j' \<and> j' \<le> length (route_files env) \<and> requests_context (route_files env ! j)
           \<longrightarrow> new_head (createHead env) (contexts_before env j)
                 \<noteq> new_head (createHead env) (contexts_before env j')))
   \<and> (same_at x env env' \<and> head opts = x \<longrightarrow>
        ((\<forall>c w. f c x w = f' c x w) \<longrightarrow>
           (\<forall>c w. run_handler env (ComponentH f x opts) c w
                   = run_handler env' (ComponentH f' x opts) c w)
           \<and> (\<forall>c w. run_handler env (MethodH f x opts) c w
                     = run_handler env' (MethodH f' x opts) c w))
        \<and> ((\<forall>c e w. g c e x w = g' c e x w) \<longrightarrow>
             (\<forall>c w. run_handler env (NotFoundH g x opts) c w
                     = run_handler env' (NotFoundH g' x opts) c w)
             \<and> (\<forall>err c w. run_error_handler env (ErrorH g x opts) err c w
                       = run_error_handler env' (ErrorH g' x opts) err c w))
        \<and> (\<forall>node st w. render_callback env opts node st w = render_callback env' opts node st w))"
proof -
  have c1: "createApp env =
     concat (map (turn env) [0..<length (route_files env)])
     @ install_root env (contexts_before env (length (route_files env)))"
    by (rule createApp_turns)
  have c2: "\<forall>j < length (route_files env). \<forall>c \<in> set (turn env j).
         set (call_heads c) \<subseteq> {new_head (createHead env) (contexts_before env j)}"
    by (auto simp: turn_def split: prod.splits dest!: install_file_heads)
  have c3: "\<forall>c \<in> set (install_root env (contexts_before env (length (route_files env)))).
         set (call_heads c)
           \<subseteq> {new_head (createHead env) (contexts_before env (length (route_files env)))}"
    using install_root_heads by blast
  have c4: "createHead env = None \<longrightarrow>
        (\<forall>j j'. j < j' \<and> j' \<le> length (route_files env) \<and> requests_context (route_files env ! j)
           \<longrightarrow> new_head (createHead env) (contexts_before env j)
                 \<noteq> new_head (createHead env) (contexts_before env j'))"
  proof (intro impI allI, elim conjE)
    fix j j'
    assume h: "createHead env = None" and a: "j < j'" "j' \<le> length (route_files env)"
      "requests_context (route_files env ! j)"
    have "contexts_before env j < contexts_before env j'"
      unfolding contexts_before_def using a by (rule filter_take_strict)
    then show "new_head (createHead env) (contexts_before env j)
                 \<noteq> new_head (createHead env) (contexts_before env j')"
      by (simp add: new_head_def h)
  qed
  have c5: "same_at x env env' \<and> head opts = x \<longrightarrow>
        ((\<forall>c w. f c x w = f' c x w) \<longrightarrow>
           (\<forall>c w. run_handler env (ComponentH f x opts) c w
                   = run_handler env' (ComponentH f' x opts) c w)
           \<and> (\<forall>c w. run_handler env (MethodH f x opts) c w
                     = run_handler env' (MethodH f' x opts) c w))
        \<and> ((\<forall>c e w. g c e x w = g' c e x w) \<longrightarrow>
             (\<forall>c w. run_handler env (NotFoundH g x opts) c w
                     = run_handler env' (NotFoundH g' x opts) c w)
             \<and> (\<forall>err c w. run_error_handler env (ErrorH g x opts) err c w
                       = run_error_handler env' (ErrorH g' x opts) err c w))
        \<and> (\<forall>node st w. render_callback env opts node st w = render_callback env' opts node st w)"
  proof (intro impI, elim conjE)
    assume s: "same_at x env env'" "head opts = x"
    have tw: "toWebResponse env res st opts w = toWebResponse env' res st opts w" for res st w
      using s by (rule toWebResponse_same_at)
    show "((\<forall>c w. f c x w = f' c x w) \<longrightarrow>
           (\<forall>c w. run_handler env (ComponentH f x opts) c w
                   = run_handler env' (ComponentH f' x opts) c w)
           \<and> (\<forall>c w. run_handler env (MethodH f x opts) c w
                     = run_handler env' (MethodH f' x opts) c w))
        \<and> ((\<forall>c e w. g c e x w = g' c e x w) \<longrightarrow>
             (\<forall>c w. run_handler env (NotFoundH g x opts) c w
                     = run_handler env' (NotFoundH g' x opts) c w)
             \<and> (\<forall>err c w. run_error_handler env (ErrorH g x opts) err c w
                       = run_error_handler env' (ErrorH g' x opts) err c w))
        \<and> (\<forall>node st w. render_callback env opts node st w = render_callback env' opts node st w)"
      by (simp add: bind_eff_def tw render_callback_def split: prod.splits sum.splits)
  qed
  show ?thesis
    by (rule c1 c2 c3 c4 c5 conjI)+
qed

theorem render_context_per_route_file_witness:
  "createHead two_pages = None
   \<and> route_files two_pages =
       [(0, ''/app/routes/a'', ''x.tsx'', Some (component page)),
        (0, ''/app/routes/a'', ''y.tsx'', Some (component page))]
   \<and> requests_context (route_files two_pages ! 0)
   \<and> createApp two_pages = turn two_pages 0 @ turn two_pages 1 @ install_root two_pages 2
   \<and> concat (map call_heads (turn two_pages 0)) = [0, 0, 0, 0]
   \<and> concat (map call_heads (turn two_pages 1)) = [1, 1, 1, 1]
   \<and> install_root two_pages 2 = []
   \<and> new_head (createHead two_pages) (contexts_before two_pages 0)
       \<noteq> new_head (createHead two_pages) (contexts_before two_pages 1)
   \<and> same_at 0 two_pages two_pages
   \<and> run_handler two_pages
         (ComponentH page 0 \<lparr>head = 0, layouts = None, filename = ''x.tsx''\<rparr>) 7 []
       = run_handler two_pages
           (ComponentH page_at_0 0 \<lparr>head = 0, layouts = None, filename = ''x.tsx''\<rparr>) 7 []"
proof -
  let ?o = "\<lparr>head = 0, layouts = None, filename = ''x.tsx''\<rparr>"
  have v: "routesMap two_pages =
      [(''/app/routes/a'', [(''x.tsx'', Some (component page)), (''y.tsx'', Some (component page))])]"
    "preservedMap two_pages = [(''/app/routes/a'', [''_404.tsx'' \<mapsto> missing])]"
    "root two_pages = ''/app/routes''" "createHead two_pages = None"
    "filePathToPath two_pages = example_path" "stripRoot two_pages = example_strip"
    "LAYOUTS two_pages = Map.empty"
    by (simp_all add: two_pages_def scope0_def)
  have r: "resolve_layouts (layoutList two_pages) ''/app/routes/a'' = None"
    by (rule resolve_layouts_absolute_empty) (simp add: two_pages_def scope0_def)
  have rf: "route_files two_pages =
       [(0, ''/app/routes/a'', ''x.tsx'', Some (component page)),
        (0, ''/app/routes/a'', ''y.tsx'', Some (component page))]"
    by (simp add: route_files_def v)
  have rq: "requests_context (route_files two_pages ! 0)" "requests_context (route_files two_pages ! 1)"
    by (simp_all add: rf requests_context_def component_def)
  have cb: "contexts_before two_pages 0 = 0" "contexts_before two_pages 1 = 1"
    "contexts_before two_pages 2 = 2"
    by (simp_all add: contexts_before_def rf requests_context_def component_def numeral_2_eq_2)
  have cb1: "contexts_before two_pages (Suc 0) = Suc 0"
    using cb(2) by simp
  have len: "length (route_files two_pages) = 2"
    by (simp add: rf)
  have u: "[0..<(2::nat)] = [0, 1]"
    by (simp add: upt_rec)
  have app: "createApp two_pages = turn two_pages 0 @ turn two_pages 1 @ install_root two_pages 2"
    using render_context_per_route_file [of two_pages, THEN conjunct1]
    unfolding len cb u by simp
  have t0: "concat (map call_heads (turn two_pages 0)) = [0, 0, 0, 0]"
    by (simp add: turn_def rf cb r v install_file_def Let_def component_def new_head_def
        install_preserved_def NOTFOUND_FILENAME_def ERROR_FILENAME_def)
  have t1: "concat (map call_heads (turn two_pages 1)) = [1, 1, 1, 1]"
    by (simp add: turn_def rf cb1 r v install_file_def Let_def component_def new_head_def
        install_preserved_def NOTFOUND_FILENAME_def ERROR_FILENAME_def)
  have ir: "install_root two_pages 2 = []"
    by (simp add: install_root_def v)
  have ne: "new_head (createHead two_pages) (contexts_before two_pages 0)
       \<noteq> new_head (createHead two_pages) (contexts_before two_pages 1)"
    using render_context_per_route_file [of two_pages, THEN conjunct2, THEN conjunct2,
        THEN conjunct2, THEN conjunct1, THEN mp, OF v(4), rule_format, of 0 1] rq(1)
    by (simp add: rf cb1)
  have sa: "same_at 0 two_pages two_pages"
    by (simp add: same_at_def v)
  have pg: "\<forall>c w. page c 0 w = page_at_0 c 0 w"
    by (simp add: page_at_0_def)
  have hd0: "head ?o = 0"
    by simp
  have ni: "run_handler two_pages (ComponentH page 0 ?o) 7 []
       = run_handler two_pages (ComponentH page_at_0 0 ?o) 7 []"
    using render_context_per_route_file [of two_pages 0 two_pages ?o page page_at_0,
        THEN conjunct2, THEN conjunct2, THEN conjunct2, THEN conjunct2, THEN mp,
        OF conjI [OF sa hd0], THEN conjunct1, THEN mp, OF pg, THEN conjunct1]
    by blast
  show ?thesis
    using v(4) rf rq(1) app t0 t1 ir ne sa ni by simp
qed

end
